theory Spec2Isabelle
  imports Complex_Main
begin

section \<open>The recommendation calculator of the crop and fertilizer advisor\<close>

text \<open>
  The page component \<^verbatim>\<open>Home\<close> holds one function with decision structure,
  \<^verbatim>\<open>generateRecommendations\<close>, and the static result \<^verbatim>\<open>fallbackResults\<close> that
  \<^verbatim>\<open>handleSubmit\<close> shows when that call is rejected. Both are embedded here.

  A JavaScript \<^verbatim>\<open>number\<close> is modelled as a \<^typ>\<open>real\<close>: a finite value, with exact
  arithmetic. The rounding of IEEE doubles, the infinities and NaN are outside the model.
  An optional field \<^verbatim>\<open>pH?: number\<close> is a \<^typ>\<open>real option\<close>, \<^term>\<open>None\<close> when the
  property is absent.
\<close>

subsection \<open>Data model\<close>

record SoilData =
  pH :: "real option"
  nitrogen :: "real option"
  phosphorus :: "real option"
  potassium :: "real option"
  location :: "string option"

record CropRecommendation =
  name :: string
  suitability :: real
  expectedYield :: string

record FertilizerRecommendation =
  npkRatio :: string
  quantity :: string
  estimatedCost :: string

record SoilHealth =
  status :: string
  improvements :: "string list"

record AnalysisResults =
  recommendedCrops :: "CropRecommendation list"
  fertilizerRecommendation :: FertilizerRecommendation
  soilHealth :: SoilHealth

subsection \<open>The JavaScript primitives the function uses\<close>

text \<open>
  \<^verbatim>\<open>v || d\<close> on an optional number: \<^verbatim>\<open>undefined\<close> and \<^verbatim>\<open>0\<close> are falsy, so
  both give \<^verbatim>\<open>d\<close>; every other number is truthy and is returned.
\<close>

definition or_default :: "real option \<Rightarrow> real \<Rightarrow> real" where
  "or_default v d = (case v of None \<Rightarrow> d | Some x \<Rightarrow> if x = 0 then d else x)"

definition Math_min :: "real \<Rightarrow> real \<Rightarrow> real" where
  "Math_min a b = (if b < a then b else a)"

definition Math_abs :: "real \<Rightarrow> real" where
  "Math_abs x = (if x < 0 then - x else x)"

text \<open>\<^verbatim>\<open>Math.round\<close> rounds to the nearest integer, a tie towards plus infinity.\<close>

definition Math_round :: "real \<Rightarrow> real" where
  "Math_round x = of_int \<lfloor>x + 1 / 2\<rfloor>"

text \<open>
  The template literals print numbers that are integers (a ratio 10, 15 or 20, or a result
  of \<^verbatim>\<open>Math.round\<close>). JavaScript prints such a number in decimal digits, with a
  leading minus sign when negative (below \<open>10\<^sup>2\<^sup>1\<close> in magnitude, beyond which it
  switches to exponent notation, not modelled here).
\<close>

definition digit_char :: "nat \<Rightarrow> char" where
  "digit_char d = ''0123456789'' ! d"

fun digits :: "nat \<Rightarrow> string" where
  "digits n = (if n < 10 then [digit_char n] else digits (n div 10) @ [digit_char (n mod 10)])"

definition Number_toString :: "real \<Rightarrow> string" where
  "Number_toString x =
     (let i = \<lfloor>x\<rfloor> in if i < 0 then CHR ''-'' # digits (nat (- i)) else digits (nat i))"

subsection \<open>generateRecommendations\<close>

text \<open>
  The body of \<^verbatim>\<open>generateRecommendations\<close> has three independent parts after the
  defaulting of its four inputs; each part is a definition of its own, over the defaulted
  values, and \<open>generateRecommendations\<close> puts them together in the returned object.
  A \<^verbatim>\<open>push\<close> on a local array appends to a list, and a reassigned local variable is
  rebound by the next \<open>let\<close>.
\<close>

text \<open>Lines 175 to 199: soil health status and the list of improvements.\<close>

definition soilHealthStatus :: "real \<Rightarrow> real \<Rightarrow> real \<Rightarrow> real \<Rightarrow> SoilHealth" where
  "soilHealthStatus pH' nitrogen' phosphorus' potassium' =
     (let soilStatus = ''Good'';
          improvements' = [];
          (soilStatus, improvements') =
            (if pH' < 6.0 then (''Acidic'', improvements' @ [''Apply lime to increase pH''])
             else if pH' > 7.5 then (''Alkaline'', improvements' @ [''Apply sulfur to decrease pH''])
             else (soilStatus, improvements'));
          improvements' =
            (if nitrogen' < 0.5 then improvements' @ [''Increase nitrogen with organic compost'']
             else improvements');
          improvements' =
            (if phosphorus' < 0.1 then improvements' @ [''Add phosphate fertilizer'']
             else improvements');
          improvements' =
            (if potassium' < 0.8 then improvements' @ [''Apply potassium-rich fertilizer'']
             else improvements');
          improvements' =
            (if length improvements' = 0
             then improvements' @ [''Maintain current nutrient balance'',
                                   ''Regular soil testing recommended'']
             else improvements')
      in \<lparr>status = soilStatus, improvements = improvements'\<rparr>)"

text \<open>Lines 201 to 236: the crop list, in the order Tomato, Lettuce, Pepper, fallback.\<close>

definition cropList :: "real \<Rightarrow> real \<Rightarrow> real \<Rightarrow> real \<Rightarrow> CropRecommendation list" where
  "cropList pH' nitrogen' phosphorus' potassium' =
     (let recommendedCrops' = [];
          recommendedCrops' =
            (if pH' \<ge> 6.0 \<and> pH' \<le> 7.0 \<and> nitrogen' \<ge> 0.6
             then recommendedCrops' @
               [\<lparr>name = ''Tomato'',
                 suitability = Math_min 95 (60 + (nitrogen' * 30) + (7 - Math_abs (pH' - 6.5)) * 5),
                 expectedYield = Number_toString (Math_round (20 + nitrogen' * 10)) @ '' tons/hectare''\<rparr>]
             else recommendedCrops');
          recommendedCrops' = recommendedCrops' @
               [\<lparr>name = ''Lettuce'',
                 suitability = Math_min 95 (70 + (phosphorus' * 100) + (8 - Math_abs (pH' - 6.8)) * 3),
                 expectedYield = Number_toString (Math_round (12 + phosphorus' * 20)) @ '' tons/hectare''\<rparr>];
          recommendedCrops' =
            (if potassium' \<ge> 0.7
             then recommendedCrops' @
               [\<lparr>name = ''Pepper'',
                 suitability = Math_min 95 (65 + (potassium' * 25) + (7.5 - Math_abs (pH' - 6.8)) * 4),
                 expectedYield = Number_toString (Math_round (15 + potassium' * 8)) @ '' tons/hectare''\<rparr>]
             else recommendedCrops');
          recommendedCrops' =
            (if length recommendedCrops' = 0
             then recommendedCrops' @
               [\<lparr>name = ''Hardy Vegetables'', suitability = 70,
                 expectedYield = ''10-15 tons/hectare''\<rparr>]
             else recommendedCrops')
      in recommendedCrops')"

text \<open>Lines 238 to 252 and 256 to 260: the three ratios and the fertilizer record.\<close>

definition npkRatios :: "real \<Rightarrow> real \<Rightarrow> real \<Rightarrow> real \<times> real \<times> real" where
  "npkRatios nitrogen' phosphorus' potassium' =
     (let nRatio = 10;
          pRatio = 10;
          kRatio = 10;
          nRatio = (if nitrogen' < 0.8 then 15 else nRatio);
          nRatio = (if nitrogen' < 0.5 then 20 else nRatio);
          pRatio = (if phosphorus' < 0.15 then 15 else pRatio);
          pRatio = (if phosphorus' < 0.1 then 20 else pRatio);
          kRatio = (if potassium' < 0.9 then 15 else kRatio);
          kRatio = (if potassium' < 0.7 then 20 else kRatio)
      in (nRatio, pRatio, kRatio))"

definition fertilizerMix :: "real \<Rightarrow> real \<Rightarrow> real \<Rightarrow> FertilizerRecommendation" where
  "fertilizerMix nitrogen' phosphorus' potassium' =
     (let (nRatio, pRatio, kRatio) = npkRatios nitrogen' phosphorus' potassium';
          fertilizerCost = Math_round ((nRatio + pRatio + kRatio) * 2.5 + 100)
      in \<lparr>npkRatio = Number_toString nRatio @ ''-'' @ Number_toString pRatio @ ''-''
                        @ Number_toString kRatio,
          quantity = Number_toString (Math_round (150 + (nRatio + pRatio + kRatio) * 3))
                        @ '' kg/hectare'',
          estimatedCost = ''$'' @ Number_toString fertilizerCost\<rparr>)"

definition generateRecommendations :: "SoilData \<Rightarrow> AnalysisResults" where
  "generateRecommendations soilData =
     (let pH' = or_default (pH soilData) 6.5;
          nitrogen' = or_default (nitrogen soilData) 0.8;
          phosphorus' = or_default (phosphorus soilData) 0.15;
          potassium' = or_default (potassium soilData) 0.9
      in \<lparr>recommendedCrops = take 3 (cropList pH' nitrogen' phosphorus' potassium'),
          fertilizerRecommendation = fertilizerMix nitrogen' phosphorus' potassium',
          soilHealth = soilHealthStatus pH' nitrogen' phosphorus' potassium'\<rparr>)"

text \<open>The result \<^verbatim>\<open>handleSubmit\<close> substitutes in its \<^verbatim>\<open>catch\<close> branch.\<close>

definition fallbackResults :: AnalysisResults where
  "fallbackResults =
     \<lparr>recommendedCrops =
        [\<lparr>name = ''Mixed Vegetables'', suitability = 75,
          expectedYield = ''15-20 tons/hectare''\<rparr>],
      fertilizerRecommendation =
        \<lparr>npkRatio = ''10-10-10'', quantity = ''200 kg/hectare'', estimatedCost = ''$150''\<rparr>,
      soilHealth =
        \<lparr>status = ''Needs Analysis'',
         improvements = [''Get detailed soil test'', ''Monitor nutrient levels'']\<rparr>\<rparr>"

text \<open>The form's initial state, \<^verbatim>\<open>soilData: {}\<close>: every field absent.\<close>

definition emptySoilData :: SoilData where
  "emptySoilData =
     \<lparr>pH = None, nitrogen = None, phosphorus = None, potassium = None, location = None\<rparr>"

section \<open>Properties\<close>

subsection \<open>Auxiliary facts\<close>

lemma Math_min_le: "Math_min a b \<le> a"
  by (simp add: Math_min_def)

lemma Number_toString_20: "Number_toString 20 = ''20''"
  by (simp add: Number_toString_def digit_char_def)

lemma take_excludes: "x \<notin> set (map f xs) \<Longrightarrow> x \<notin> set (map f (take n xs))"
  by (auto dest: in_set_takeD)

lemma cropList_length: "1 \<le> length (cropList a b c d) \<and> length (cropList a b c d) \<le> 3"
  by (simp add: cropList_def Let_def)

lemma cropList_names:
  "set (map name (cropList a b c d)) \<subseteq> {''Tomato'', ''Lettuce'', ''Pepper''}"
  by (auto simp add: cropList_def Let_def)

lemma pepper_excluded: "k < 0.7 \<Longrightarrow> ''Pepper'' \<notin> set (map name (cropList a b c k))"
  by (auto simp add: cropList_def Let_def)

lemma status_cases:
  "status (soilHealthStatus a b c d) =
     (if a < 6 then ''Acidic'' else if a > 7.5 then ''Alkaline'' else ''Good'')"
  by (simp add: soilHealthStatus_def Let_def)

lemma lime_advisory:
  "a < 6 \<Longrightarrow> ''Apply lime to increase pH'' \<in> set (improvements (soilHealthStatus a b c d))"
  by (simp add: soilHealthStatus_def Let_def)

lemma sulfur_advisory:
  "a > 7.5 \<Longrightarrow>
     ''Apply sulfur to decrease pH'' \<in> set (improvements (soilHealthStatus a b c d))"
  by (simp add: soilHealthStatus_def Let_def)

lemma npkRatios_eq:
  "npkRatios n p k =
     (if n < 0.5 then 20 else if n < 0.8 then 15 else 10,
      if p < 0.1 then 20 else if p < 0.15 then 15 else 10,
      if k < 0.7 then 20 else if k < 0.9 then 15 else 10)"
  by (simp add: npkRatios_def Let_def)

text \<open>The results on the three concrete inputs the properties below speak about.\<close>

lemma empty_crops:
  "recommendedCrops (generateRecommendations emptySoilData) =
     [\<lparr>name = ''Tomato'', suitability = 95, expectedYield = ''28 tons/hectare''\<rparr>,
      \<lparr>name = ''Lettuce'', suitability = 95, expectedYield = ''15 tons/hectare''\<rparr>,
      \<lparr>name = ''Pepper'', suitability = 95, expectedYield = ''22 tons/hectare''\<rparr>]"
  by (simp add: generateRecommendations_def emptySoilData_def Let_def or_default_def
      cropList_def Math_min_def Math_abs_def Math_round_def Number_toString_def digit_char_def)

lemma tomato_crops:
  "recommendedCrops (generateRecommendations
     \<lparr>pH = Some 6.5, nitrogen = Some 0.9, phosphorus = None, potassium = None,
      location = l\<rparr>) =
     [\<lparr>name = ''Tomato'', suitability = 95, expectedYield = ''29 tons/hectare''\<rparr>,
      \<lparr>name = ''Lettuce'', suitability = 95, expectedYield = ''15 tons/hectare''\<rparr>,
      \<lparr>name = ''Pepper'', suitability = 95, expectedYield = ''22 tons/hectare''\<rparr>]"
  by (simp add: generateRecommendations_def Let_def or_default_def
      cropList_def Math_min_def Math_abs_def Math_round_def Number_toString_def digit_char_def)

text \<open>
  Lettuce is pushed without a condition, so the list is never empty when the fallback
  test runs: the generic entry is never produced, whatever the input.
\<close>

lemma lettuce_always_listed:
  "''Lettuce'' \<in> set (map name (recommendedCrops (generateRecommendations s)))"
proof -
  have l: "length (cropList a b c d) \<le> 3" for a b c d
    by (simp add: cropList_def Let_def)
  have "''Lettuce'' \<in> set (map name (cropList a b c d))" for a b c d
    by (simp add: cropList_def Let_def)
  then show ?thesis
    by (simp add: generateRecommendations_def Let_def l)
qed

lemma hardy_vegetables_never_listed:
  "''Hardy Vegetables'' \<notin> set (map name (recommendedCrops (generateRecommendations s)))"
proof -
  have "''Hardy Vegetables'' \<notin> set (map name (cropList a b c d))" for a b c d
    using cropList_names [of a b c d] by auto
  then have "''Hardy Vegetables'' \<notin> set (map name (take 3 (cropList a b c d)))" for a b c d
    by (rule take_excludes)
  then show ?thesis
    by (simp add: generateRecommendations_def Let_def)
qed

subsection \<open>The crop list\<close>

text \<open>
  C1, as amended. For the input pH = 9, nitrogen = 0, potassium = 0 (phosphorus absent) the
  crop list is not empty, its first entry is Lettuce with suitability 95, and it has no
  Hardy Vegetables entry: Tomato is excluded by the pH, Lettuce is listed unconditionally,
  and so the fallback entry is not substituted. The entries after Lettuce are
  not part of this property.
\<close>

theorem alkaline_input_lettuce_first:
  "recommendedCrops (generateRecommendations
      \<lparr>pH = Some 9, nitrogen = Some 0, phosphorus = None, potassium = Some 0,
       location = l\<rparr>) \<noteq> []
   \<and> hd (recommendedCrops (generateRecommendations
      \<lparr>pH = Some 9, nitrogen = Some 0, phosphorus = None, potassium = Some 0,
       location = l\<rparr>)) =
      \<lparr>name = ''Lettuce'', suitability = 95, expectedYield = ''15 tons/hectare''\<rparr>
   \<and> ''Hardy Vegetables'' \<notin> set (map name (recommendedCrops (generateRecommendations
      \<lparr>pH = Some 9, nitrogen = Some 0, phosphorus = None, potassium = Some 0,
       location = l\<rparr>)))"
proof (intro conjI)
  have c: "cropList 9 n 0.15 k =
      \<lparr>name = ''Lettuce'', suitability = 95, expectedYield = ''15 tons/hectare''\<rparr>
        # tl (cropList 9 n 0.15 k)" for n k
    by (simp add: cropList_def Let_def Math_min_def Math_abs_def Math_round_def
        Number_toString_def digit_char_def)
  have g: "recommendedCrops (generateRecommendations
      \<lparr>pH = Some 9, nitrogen = Some 0, phosphorus = None, potassium = Some 0,
       location = l\<rparr>) = take 3 (cropList 9 0.8 0.15 0.9)"
    by (simp add: generateRecommendations_def Let_def or_default_def)
  show "recommendedCrops (generateRecommendations
      \<lparr>pH = Some 9, nitrogen = Some 0, phosphorus = None, potassium = Some 0,
       location = l\<rparr>) \<noteq> []"
    unfolding g by (subst c) simp
  show "hd (recommendedCrops (generateRecommendations
      \<lparr>pH = Some 9, nitrogen = Some 0, phosphorus = None, potassium = Some 0,
       location = l\<rparr>)) =
      \<lparr>name = ''Lettuce'', suitability = 95, expectedYield = ''15 tons/hectare''\<rparr>"
    unfolding g by (subst c) simp
  show "''Hardy Vegetables'' \<notin> set (map name (recommendedCrops (generateRecommendations
      \<lparr>pH = Some 9, nitrogen = Some 0, phosphorus = None, potassium = Some 0,
       location = l\<rparr>)))"
    by (rule hardy_vegetables_never_listed)
qed

text \<open>
  C1 as stated (exactly one entry, named Hardy Vegetables, with suitability 70) fails on
  that input.
\<close>

theorem hardy_vegetables_counterexample:
  "\<not> (map name (recommendedCrops (generateRecommendations
          \<lparr>pH = Some 9, nitrogen = Some 0, phosphorus = None, potassium = Some 0,
           location = None\<rparr>)) = [''Hardy Vegetables'']
      \<and> map suitability (recommendedCrops (generateRecommendations
          \<lparr>pH = Some 9, nitrogen = Some 0, phosphorus = None, potassium = Some 0,
           location = None\<rparr>)) = [70])"
  by (simp add: generateRecommendations_def Let_def or_default_def cropList_def)

text \<open>
  C2. For every soil reading, the empty one included, the calculator returns a result whose
  crop list has between 1 and 3 entries. The body has no \<^verbatim>\<open>throw\<close>, no indexing and no
  access through a possibly undefined object, so the embedding has no error branch:
  \<open>generateRecommendations\<close> is a total function into \<open>AnalysisResults\<close>, a record
  with one crop list, one fertilizer recommendation and one soil health assessment.
\<close>

theorem generateRecommendations_crop_count:
  "1 \<le> length (recommendedCrops (generateRecommendations soilData)) \<and>
   length (recommendedCrops (generateRecommendations soilData)) \<le> 3"
  using cropList_length by (simp add: generateRecommendations_def Let_def)

subsection \<open>Defaulting\<close>

text \<open>
  C3. A missing pH, nitrogen, phosphorus or potassium is replaced by 6.5, 0.8, 0.15 or 0.9
  before anything else is computed. The result on a reading with the field absent is the
  result on the same reading with the field set to that constant; it is the object built
  from the crop list, the fertilizer mix and the soil health computed with that constant
  in the field's place (the other three being the defaulted values of the reading); on the
  reading with all four absent every part is computed from 6.5, 0.8, 0.15 and 0.9; and a
  missing pH is classified as 6.5 is, Good.
\<close>

theorem missing_field_defaulted:
  "generateRecommendations (s\<lparr>pH := None\<rparr>) = generateRecommendations (s\<lparr>pH := Some 6.5\<rparr>)
   \<and> generateRecommendations (s\<lparr>nitrogen := None\<rparr>)
       = generateRecommendations (s\<lparr>nitrogen := Some 0.8\<rparr>)
   \<and> generateRecommendations (s\<lparr>phosphorus := None\<rparr>)
       = generateRecommendations (s\<lparr>phosphorus := Some 0.15\<rparr>)
   \<and> generateRecommendations (s\<lparr>potassium := None\<rparr>)
       = generateRecommendations (s\<lparr>potassium := Some 0.9\<rparr>)
   \<and> generateRecommendations (s\<lparr>pH := None\<rparr>) =
       \<lparr>recommendedCrops = take 3 (cropList 6.5 (or_default (nitrogen s) 0.8)
          (or_default (phosphorus s) 0.15) (or_default (potassium s) 0.9)),
        fertilizerRecommendation = fertilizerMix (or_default (nitrogen s) 0.8)
          (or_default (phosphorus s) 0.15) (or_default (potassium s) 0.9),
        soilHealth = soilHealthStatus 6.5 (or_default (nitrogen s) 0.8)
          (or_default (phosphorus s) 0.15) (or_default (potassium s) 0.9)\<rparr>
   \<and> generateRecommendations (s\<lparr>nitrogen := None\<rparr>) =
       \<lparr>recommendedCrops = take 3 (cropList (or_default (pH s) 6.5) 0.8
          (or_default (phosphorus s) 0.15) (or_default (potassium s) 0.9)),
        fertilizerRecommendation = fertilizerMix 0.8
          (or_default (phosphorus s) 0.15) (or_default (potassium s) 0.9),
        soilHealth = soilHealthStatus (or_default (pH s) 6.5) 0.8
          (or_default (phosphorus s) 0.15) (or_default (potassium s) 0.9)\<rparr>
   \<and> generateRecommendations (s\<lparr>phosphorus := None\<rparr>) =
       \<lparr>recommendedCrops = take 3 (cropList (or_default (pH s) 6.5)
          (or_default (nitrogen s) 0.8) 0.15 (or_default (potassium s) 0.9)),
        fertilizerRecommendation = fertilizerMix (or_default (nitrogen s) 0.8)
          0.15 (or_default (potassium s) 0.9),
        soilHealth = soilHealthStatus (or_default (pH s) 6.5)
          (or_default (nitrogen s) 0.8) 0.15 (or_default (potassium s) 0.9)\<rparr>
   \<and> generateRecommendations (s\<lparr>potassium := None\<rparr>) =
       \<lparr>recommendedCrops = take 3 (cropList (or_default (pH s) 6.5)
          (or_default (nitrogen s) 0.8) (or_default (phosphorus s) 0.15) 0.9),
        fertilizerRecommendation = fertilizerMix (or_default (nitrogen s) 0.8)
          (or_default (phosphorus s) 0.15) 0.9,
        soilHealth = soilHealthStatus (or_default (pH s) 6.5)
          (or_default (nitrogen s) 0.8) (or_default (phosphorus s) 0.15) 0.9\<rparr>
   \<and> generateRecommendations
        \<lparr>pH = None, nitrogen = None, phosphorus = None, potassium = None, location = l\<rparr> =
       \<lparr>recommendedCrops = take 3 (cropList 6.5 0.8 0.15 0.9),
        fertilizerRecommendation = fertilizerMix 0.8 0.15 0.9,
        soilHealth = soilHealthStatus 6.5 0.8 0.15 0.9\<rparr>
   \<and> status (soilHealth (generateRecommendations (s\<lparr>pH := None\<rparr>))) = ''Good''"
  by (simp add: generateRecommendations_def or_default_def Let_def status_cases)

text \<open>
  C9. A field equal to 0 is treated as missing and replaced by the default constant. The
  result on a reading whose pH, nitrogen, phosphorus or potassium is 0 is the result on the
  same reading with that field absent, and the result with that field set to 6.5, 0.8, 0.15
  or 0.9; it is the object whose parts are computed with that constant in the field's
  place. So a pH of 0 is classified Good, as 6.5 is, and a potassium of 0 keeps the Pepper
  entry, as 0.9 does.
\<close>

theorem zero_field_is_missing:
  "generateRecommendations (s\<lparr>pH := Some 0\<rparr>) = generateRecommendations (s\<lparr>pH := None\<rparr>)
   \<and> generateRecommendations (s\<lparr>nitrogen := Some 0\<rparr>)
       = generateRecommendations (s\<lparr>nitrogen := None\<rparr>)
   \<and> generateRecommendations (s\<lparr>phosphorus := Some 0\<rparr>)
       = generateRecommendations (s\<lparr>phosphorus := None\<rparr>)
   \<and> generateRecommendations (s\<lparr>potassium := Some 0\<rparr>)
       = generateRecommendations (s\<lparr>potassium := None\<rparr>)
   \<and> generateRecommendations (s\<lparr>pH := Some 0\<rparr>) = generateRecommendations (s\<lparr>pH := Some 6.5\<rparr>)
   \<and> generateRecommendations (s\<lparr>nitrogen := Some 0\<rparr>)
       = generateRecommendations (s\<lparr>nitrogen := Some 0.8\<rparr>)
   \<and> generateRecommendations (s\<lparr>phosphorus := Some 0\<rparr>)
       = generateRecommendations (s\<lparr>phosphorus := Some 0.15\<rparr>)
   \<and> generateRecommendations (s\<lparr>potassium := Some 0\<rparr>)
       = generateRecommendations (s\<lparr>potassium := Some 0.9\<rparr>)
   \<and> generateRecommendations (s\<lparr>pH := Some 0\<rparr>) =
       \<lparr>recommendedCrops = take 3 (cropList 6.5 (or_default (nitrogen s) 0.8)
          (or_default (phosphorus s) 0.15) (or_default (potassium s) 0.9)),
        fertilizerRecommendation = fertilizerMix (or_default (nitrogen s) 0.8)
          (or_default (phosphorus s) 0.15) (or_default (potassium s) 0.9),
        soilHealth = soilHealthStatus 6.5 (or_default (nitrogen s) 0.8)
          (or_default (phosphorus s) 0.15) (or_default (potassium s) 0.9)\<rparr>
   \<and> generateRecommendations (s\<lparr>nitrogen := Some 0\<rparr>) =
       \<lparr>recommendedCrops = take 3 (cropList (or_default (pH s) 6.5) 0.8
          (or_default (phosphorus s) 0.15) (or_default (potassium s) 0.9)),
        fertilizerRecommendation = fertilizerMix 0.8
          (or_default (phosphorus s) 0.15) (or_default (potassium s) 0.9),
        soilHealth = soilHealthStatus (or_default (pH s) 6.5) 0.8
          (or_default (phosphorus s) 0.15) (or_default (potassium s) 0.9)\<rparr>
   \<and> generateRecommendations (s\<lparr>phosphorus := Some 0\<rparr>) =
       \<lparr>recommendedCrops = take 3 (cropList (or_default (pH s) 6.5)
          (or_default (nitrogen s) 0.8) 0.15 (or_default (potassium s) 0.9)),
        fertilizerRecommendation = fertilizerMix (or_default (nitrogen s) 0.8)
          0.15 (or_default (potassium s) 0.9),
        soilHealth = soilHealthStatus (or_default (pH s) 6.5)
          (or_default (nitrogen s) 0.8) 0.15 (or_default (potassium s) 0.9)\<rparr>
   \<and> generateRecommendations (s\<lparr>potassium := Some 0\<rparr>) =
       \<lparr>recommendedCrops = take 3 (cropList (or_default (pH s) 6.5)
          (or_default (nitrogen s) 0.8) (or_default (phosphorus s) 0.15) 0.9),
        fertilizerRecommendation = fertilizerMix (or_default (nitrogen s) 0.8)
          (or_default (phosphorus s) 0.15) 0.9,
        soilHealth = soilHealthStatus (or_default (pH s) 6.5)
          (or_default (nitrogen s) 0.8) (or_default (phosphorus s) 0.15) 0.9\<rparr>
   \<and> status (soilHealth (generateRecommendations (s\<lparr>pH := Some 0\<rparr>))) = ''Good''
   \<and> ''Pepper'' \<in> set (map name (recommendedCrops (generateRecommendations
        \<lparr>pH = Some 9, nitrogen = None, phosphorus = None, potassium = Some 0, location = l\<rparr>)))"
  by (simp add: generateRecommendations_def or_default_def Let_def status_cases cropList_def)

subsection \<open>Soil health\<close>

text \<open>
  C4. With pH the defaulted value, the status is Acidic exactly when pH < 6.0, Alkaline
  exactly when pH > 7.5, and Good otherwise. In particular a reading with pH = 5.5 has
  status Acidic and the lime advisory among its improvements, and one with pH = 8.0 has
  status Alkaline and the sulfur advisory.
\<close>

theorem soil_status_classification:
  "(status (soilHealth (generateRecommendations s)) = ''Acidic'')
      = (or_default (pH s) 6.5 < 6.0)
   \<and> (status (soilHealth (generateRecommendations s)) = ''Alkaline'')
      = (or_default (pH s) 6.5 > 7.5)
   \<and> (status (soilHealth (generateRecommendations s)) = ''Good'')
      = (\<not> or_default (pH s) 6.5 < 6.0 \<and> \<not> or_default (pH s) 6.5 > 7.5)
   \<and> status (soilHealth (generateRecommendations (s\<lparr>pH := Some 5.5\<rparr>))) = ''Acidic''
   \<and> ''Apply lime to increase pH''
        \<in> set (improvements (soilHealth (generateRecommendations (s\<lparr>pH := Some 5.5\<rparr>))))
   \<and> status (soilHealth (generateRecommendations (s\<lparr>pH := Some 8.0\<rparr>))) = ''Alkaline''
   \<and> ''Apply sulfur to decrease pH''
        \<in> set (improvements (soilHealth (generateRecommendations (s\<lparr>pH := Some 8.0\<rparr>))))"
  by (simp add: generateRecommendations_def Let_def status_cases lime_advisory sulfur_advisory
      or_default_def)

subsection \<open>Fertilizer mix\<close>

text \<open>
  C5. Over the defaulted values, each ratio is 20 when its nutrient is below the lower
  threshold, else 15 when below the upper threshold, else 10 (nitrogen 0.5 and 0.8,
  phosphorus 0.1 and 0.15, potassium 0.7 and 0.9): the later test against the lower
  threshold overrides the 15 assigned by the earlier one. The returned ratio string prints
  these three values. In particular potassium = 0.5 gives the potassium ratio 20, the ratio
  string ends in 20, and Pepper is not in the crop list.
\<close>

theorem npk_ratio_thresholds:
  "npkRatios n p k =
     (if n < 0.5 then 20 else if n < 0.8 then 15 else 10,
      if p < 0.1 then 20 else if p < 0.15 then 15 else 10,
      if k < 0.7 then 20 else if k < 0.9 then 15 else 10)
   \<and> npkRatio (fertilizerRecommendation (generateRecommendations s)) =
      (case npkRatios (or_default (nitrogen s) 0.8) (or_default (phosphorus s) 0.15)
              (or_default (potassium s) 0.9) of
         (nRatio, pRatio, kRatio) \<Rightarrow>
           Number_toString nRatio @ ''-'' @ Number_toString pRatio @ ''-''
             @ Number_toString kRatio)
   \<and> snd (snd (npkRatios n p 0.5)) = 20
   \<and> npkRatio (fertilizerRecommendation
        (generateRecommendations (s\<lparr>potassium := Some 0.5\<rparr>))) =
      (case npkRatios (or_default (nitrogen s) 0.8) (or_default (phosphorus s) 0.15) 0.5 of
         (nRatio, pRatio, kRatio) \<Rightarrow>
           Number_toString nRatio @ ''-'' @ Number_toString pRatio @ ''-20'')
   \<and> ''Pepper'' \<notin> set (map name (recommendedCrops
        (generateRecommendations (s\<lparr>potassium := Some 0.5\<rparr>))))"
proof (intro conjI)
  show "npkRatios n p k =
     (if n < 0.5 then 20 else if n < 0.8 then 15 else 10,
      if p < 0.1 then 20 else if p < 0.15 then 15 else 10,
      if k < 0.7 then 20 else if k < 0.9 then 15 else 10)"
    by (rule npkRatios_eq)
  show "npkRatio (fertilizerRecommendation (generateRecommendations s)) =
      (case npkRatios (or_default (nitrogen s) 0.8) (or_default (phosphorus s) 0.15)
              (or_default (potassium s) 0.9) of
         (nRatio, pRatio, kRatio) \<Rightarrow>
           Number_toString nRatio @ ''-'' @ Number_toString pRatio @ ''-''
             @ Number_toString kRatio)"
    by (simp add: generateRecommendations_def Let_def fertilizerMix_def split_beta)
  show "snd (snd (npkRatios n p 0.5)) = 20"
    by (simp add: npkRatios_eq)
  have r: "npkRatio (fertilizerMix a b 0.5) =
      (case npkRatios a b 0.5 of
         (nRatio, pRatio, kRatio) \<Rightarrow>
           Number_toString nRatio @ ''-'' @ Number_toString pRatio @ ''-20'')" for a b
    by (simp add: fertilizerMix_def npkRatios_eq Number_toString_20)
  show "npkRatio (fertilizerRecommendation
        (generateRecommendations (s\<lparr>potassium := Some 0.5\<rparr>))) =
      (case npkRatios (or_default (nitrogen s) 0.8) (or_default (phosphorus s) 0.15) 0.5 of
         (nRatio, pRatio, kRatio) \<Rightarrow>
           Number_toString nRatio @ ''-'' @ Number_toString pRatio @ ''-20'')"
    using r [of "or_default (nitrogen s) 0.8" "or_default (phosphorus s) 0.15"]
    by (simp add: generateRecommendations_def Let_def or_default_def)
  have "''Pepper'' \<notin> set (map name (cropList a b c 0.5))" for a b c
    by (rule pepper_excluded) simp
  then have "''Pepper'' \<notin> set (map name (take 3 (cropList a b c 0.5)))" for a b c
    by (rule take_excludes)
  from this [of "or_default (pH s) 6.5" "or_default (nitrogen s) 0.8"
      "or_default (phosphorus s) 0.15"]
  show "''Pepper'' \<notin> set (map name (recommendedCrops
        (generateRecommendations (s\<lparr>potassium := Some 0.5\<rparr>))))"
    by (simp add: generateRecommendations_def Let_def or_default_def)
qed

text \<open>
  C6. On the empty reading the fertilizer recommendation has the ratio 10-10-10, the
  quantity 240 kg/hectare and the estimated cost $175.
\<close>

theorem empty_input_fertilizer:
  "fertilizerRecommendation (generateRecommendations emptySoilData) =
     \<lparr>npkRatio = ''10-10-10'', quantity = ''240 kg/hectare'', estimatedCost = ''$175''\<rparr>"
  by (simp add: Let_def generateRecommendations_def emptySoilData_def or_default_def
      fertilizerMix_def npkRatios_def Math_round_def Number_toString_def digit_char_def)

subsection \<open>Suitability scores\<close>

text \<open>
  C7, as amended. On the empty reading the only Lettuce entry has the suitability
  min(95, 70 + 15 + 3 * (8 - 0.3)) = min(95, 108.1), which is exactly 95: the cap applies.
\<close>

theorem empty_input_lettuce_score:
  "map suitability (filter (\<lambda>c. name c = ''Lettuce'')
      (recommendedCrops (generateRecommendations emptySoilData)))
     = [Math_min 95 (70 + 15 + 3 * (8 - 0.3))]
   \<and> Math_min 95 (70 + 15 + 3 * (8 - 0.3)) = 95"
  by (simp add: empty_crops Math_min_def)

text \<open>
  C7 as stated (the score is approximately 93) fails: the Lettuce entry, second in the
  list, has a score that is not within 1 of 93.
\<close>

theorem empty_input_lettuce_not_93:
  "map name (recommendedCrops (generateRecommendations emptySoilData)) ! 1 = ''Lettuce''
   \<and> \<not> \<bar>map suitability (recommendedCrops (generateRecommendations emptySoilData)) ! 1 - 93\<bar> < 1"
  by (simp add: empty_crops)

text \<open>
  C8, as amended. For nitrogen = 0.9 and pH = 6.5, the other fields absent, the crop list
  has one Tomato entry, with the suitability min(95, 60 + 27 + 5 * 7) = 95: the pH term is
  (7 - |pH - 6.5|) * 5 = 35, and the cap applies.
\<close>

theorem tomato_score_capped:
  "map suitability (filter (\<lambda>c. name c = ''Tomato'')
      (recommendedCrops (generateRecommendations
         \<lparr>pH = Some 6.5, nitrogen = Some 0.9, phosphorus = None, potassium = None,
          location = l\<rparr>)))
     = [Math_min 95 (60 + 27 + 5 * 7)]
   \<and> Math_min 95 (60 + 27 + 5 * 7) = 95"
  using tomato_crops [of l] by (simp add: Math_min_def)

text \<open>
  C8 as stated (a Tomato entry with suitability 92) fails: no entry of the list pairs the
  name Tomato with the score 92.
\<close>

theorem tomato_score_not_92:
  "(''Tomato'', 92) \<notin> set (zip
     (map name (recommendedCrops (generateRecommendations
        \<lparr>pH = Some 6.5, nitrogen = Some 0.9, phosphorus = None, potassium = None,
         location = None\<rparr>)))
     (map suitability (recommendedCrops (generateRecommendations
        \<lparr>pH = Some 6.5, nitrogen = Some 0.9, phosphorus = None, potassium = None,
         location = None\<rparr>))))"
  using tomato_crops [of None] by simp

text \<open>
  C10. Every entry of the returned crop list has a suitability of at most 95, and so has
  every entry of the fallback result of \<^verbatim>\<open>handleSubmit\<close>: a computed score is capped
  by \<^verbatim>\<open>Math.min(95, ...)\<close>, and the fixed scores are 70 and 75.
\<close>

theorem suitability_at_most_95:
  "(\<forall>c \<in> set (recommendedCrops (generateRecommendations s)). suitability c \<le> 95)
   \<and> (\<forall>c \<in> set (recommendedCrops fallbackResults). suitability c \<le> 95)"
  by (simp add: generateRecommendations_def Let_def cropList_def Math_min_le
      fallbackResults_def)

text \<open>The bound at the empty reading, whose list is not empty: its first entry obeys it.\<close>

theorem suitability_at_most_95_witness:
  "recommendedCrops (generateRecommendations emptySoilData) \<noteq> []
   \<and> suitability (hd (recommendedCrops (generateRecommendations emptySoilData))) \<le> 95"
proof -
  have ne: "recommendedCrops (generateRecommendations emptySoilData) \<noteq> []"
    by (simp add: empty_crops)
  then have mem: "hd (recommendedCrops (generateRecommendations emptySoilData))
      \<in> set (recommendedCrops (generateRecommendations emptySoilData))"
    by (rule hd_in_set)
  show ?thesis
    by (rule conjI [OF ne bspec [OF conjunct1 [OF suitability_at_most_95 [of emptySoilData]] mem]])
qed

end
